theory Spec2Isabelle
  imports
    Complex_Main
    "HOL-Library.Char_ord"
    "HOL-Library.List_Lexorder"
    "HOL-Library.Product_Lexorder"
    "HOL-Library.Sublist"
    "HOL-Library.Multiset"
begin

section \<open>Values\<close>

text \<open>
  A Python \<open>str\<close> is modelled as a \<open>string\<close>; a \<open>char\<close> stands for the code point
  of the same number, so the model covers the strings over U+0000 .. U+00FF.

  A \<open>float64\<close> cell is an IEEE binary64 value: a finite number other than the negative
  zero (\<open>Fin x\<close>, where \<open>Fin 0\<close> is the positive zero), the negative zero, an infinity
  or \<open>NaN\<close>, the missing value of pandas. The result of every arithmetic operation is
  the exact result rounded to the nearest binary64 number, a tie going to the even
  significand, as IEEE 754 prescribes for division, multiplication, addition and
  subtraction.
\<close>

datatype float64 = Fin real | NZero | PInf | NInf | NaN

fun isna :: "float64 \<Rightarrow> bool" where
  "isna NaN = True"
| "isna _ = False"

fun is_inf :: "float64 \<Rightarrow> bool" where
  "is_inf PInf = True"
| "is_inf NInf = True"
| "is_inf _ = False"

text \<open>The number that a finite value stands for, and the sign bit.\<close>

fun fl_val :: "float64 \<Rightarrow> real" where
  "fl_val (Fin x) = x"
| "fl_val _ = 0"

fun is_neg :: "float64 \<Rightarrow> bool" where
  "is_neg (Fin x) = (x < 0)"
| "is_neg NZero = True"
| "is_neg NInf = True"
| "is_neg _ = False"

definition is_zero :: "float64 \<Rightarrow> bool" where
  "is_zero a = (a = Fin 0 \<or> a = NZero)"

definition fl_zero :: "bool \<Rightarrow> float64" where
  "fl_zero neg = (if neg then NZero else Fin 0)"

definition fl_inf :: "bool \<Rightarrow> float64" where
  "fl_inf neg = (if neg then NInf else PInf)"

subsection \<open>Rounding to binary64\<close>

text \<open>Integral powers of two.\<close>

definition pow2 :: "int \<Rightarrow> real" where
  "pow2 e = (if 0 \<le> e then 2 ^ nat e else 1 / 2 ^ nat (- e))"

text \<open>
  The binary exponent \<open>e\<close> of a positive number \<open>a\<close>, with \<open>2\<^sup>e \<le> a < 2\<^sup>e\<^sup>+\<^sup>1\<close>, found by
  halving or doubling; the first argument bounds the number of steps, and 2200
  steps are enough between the smallest and the largest binary64 number.
\<close>

fun find_exp :: "nat \<Rightarrow> real \<Rightarrow> int \<Rightarrow> int" where
  "find_exp 0 a e = e"
| "find_exp (Suc n) a e =
     (if 2 \<le> a then find_exp n (a / 2) (e + 1)
      else if a < 1 then find_exp n (a * 2) (e - 1)
      else e)"

text \<open>The nearest integer, a tie going to the even one.\<close>

definition rint :: "real \<Rightarrow> int" where
  "rint x =
     (let f = \<lfloor>x\<rfloor>; d = x - of_int f
      in if d < 1 / 2 then f else if 1 / 2 < d then f + 1 else if even f then f else f + 1)"

text \<open>
  The binary64 number nearest to a real number. A number of magnitude \<open>2\<^sup>1\<^sup>0\<^sup>2\<^sup>4\<close> or
  more, or one that rounds up to \<open>2\<^sup>1\<^sup>0\<^sup>2\<^sup>4\<close>, gives an infinity; a number of at most half
  the smallest subnormal number \<open>2\<^sup>-\<^sup>1\<^sup>0\<^sup>7\<^sup>4\<close> gives a zero of its sign. Otherwise the number
  is rounded to a multiple of the unit in the last place of its binade, which is
  \<open>2\<^sup>e\<^sup>-\<^sup>5\<^sup>2\<close> for the exponent \<open>e\<close>, and \<open>2\<^sup>-\<^sup>1\<^sup>0\<^sup>7\<^sup>4\<close> for the subnormal numbers.
\<close>

definition round64 :: "real \<Rightarrow> float64" where
  "round64 x =
     (let a = \<bar>x\<bar>; neg = (x < 0)
      in if pow2 1024 \<le> a then fl_inf neg
         else if a \<le> pow2 (- 1075) then fl_zero neg
         else
           (let e = max (find_exp 2200 a 0) (- 1022);
                u = pow2 (e - 52);
                q = rint (a / u)
            in if pow2 1024 \<le> of_int q * u then fl_inf neg
               else Fin ((if neg then - 1 else 1) * (of_int q * u))))"

subsection \<open>Operations\<close>

fun fl_neg :: "float64 \<Rightarrow> float64" where
  "fl_neg (Fin x) = (if x = 0 then NZero else Fin (- x))"
| "fl_neg NZero = Fin 0"
| "fl_neg PInf = NInf"
| "fl_neg NInf = PInf"
| "fl_neg NaN = NaN"

fun fl_abs :: "float64 \<Rightarrow> float64" where
  "fl_abs (Fin x) = Fin \<bar>x\<bar>"
| "fl_abs NZero = Fin 0"
| "fl_abs PInf = PInf"
| "fl_abs NInf = PInf"
| "fl_abs NaN = NaN"

text \<open>
  Comparisons: every comparison with \<open>NaN\<close> is false, and the two zeros are equal.
\<close>

definition fl_le :: "float64 \<Rightarrow> float64 \<Rightarrow> bool" where
  "fl_le a b =
     (if isna a \<or> isna b then False
      else if a = NInf \<or> b = PInf then True
      else if a = PInf \<or> b = NInf then False
      else fl_val a \<le> fl_val b)"

definition fl_ge :: "float64 \<Rightarrow> float64 \<Rightarrow> bool" where
  "fl_ge a b = fl_le b a"

text \<open>
  Addition: the sum of two infinities of opposite signs is \<open>NaN\<close>; an exact sum of
  zero is the negative zero only when both terms are the negative zero.
\<close>

definition fl_add :: "float64 \<Rightarrow> float64 \<Rightarrow> float64" where
  "fl_add a b =
     (if isna a \<or> isna b then NaN
      else if is_inf a then (if is_inf b \<and> a \<noteq> b then NaN else a)
      else if is_inf b then b
      else if fl_val a + fl_val b = 0 then fl_zero (a = NZero \<and> b = NZero)
      else round64 (fl_val a + fl_val b))"

definition fl_sub :: "float64 \<Rightarrow> float64 \<Rightarrow> float64" where
  "fl_sub a b = fl_add a (fl_neg b)"

text \<open>
  Multiplication and division: the sign of the result is negative when exactly one
  of the signs is; an infinity times a zero, a zero over a zero and an infinity
  over an infinity are \<open>NaN\<close>; a number other than zero over a zero is an infinity.
\<close>

definition fl_mul :: "float64 \<Rightarrow> float64 \<Rightarrow> float64" where
  "fl_mul a b =
     (if isna a \<or> isna b then NaN
      else if is_inf a \<or> is_inf b
        then (if is_zero a \<or> is_zero b then NaN else fl_inf (is_neg a \<noteq> is_neg b))
      else if fl_val a * fl_val b = 0 then fl_zero (is_neg a \<noteq> is_neg b)
      else round64 (fl_val a * fl_val b))"

definition fl_div :: "float64 \<Rightarrow> float64 \<Rightarrow> float64" where
  "fl_div a b =
     (if isna a \<or> isna b then NaN
      else if is_inf a then (if is_inf b then NaN else fl_inf (is_neg a \<noteq> is_neg b))
      else if is_inf b then fl_zero (is_neg a \<noteq> is_neg b)
      else if is_zero b then (if is_zero a then NaN else fl_inf (is_neg a \<noteq> is_neg b))
      else if is_zero a then fl_zero (is_neg a \<noteq> is_neg b)
      else round64 (fl_val a / fl_val b))"

section \<open>Entity Resolver\<close>

text \<open>The table \<open>COMPANY_LABELS\<close>, in the order of the dictionary literal.\<close>

definition COMPANY_LABELS :: "(string \<times> string) list" where
  "COMPANY_LABELS =
     [(''general dynamics'', ''General Dynamics''),
      (''lockheed martin'', ''Lockheed Martin''),
      (''northrop grumman'', ''Northrop Grumman''),
      (''rtx corp'', ''RTX Corp''),
      (''boeing'', ''Boeing'')]"

text \<open>\<open>str.lower\<close> on U+0000 .. U+00FF: the letters A-Z and the capital letters of Latin-1.\<close>

definition lower_char :: "char \<Rightarrow> char" where
  "lower_char c =
     (let n = (of_char c :: nat)
      in if (65 \<le> n \<and> n \<le> 90) \<or> (192 \<le> n \<and> n \<le> 222 \<and> n \<noteq> 215)
         then char_of (n + 32) else c)"

definition lower :: "string \<Rightarrow> string" where
  "lower s = map lower_char s"

text \<open>\<open>key in s\<close> for two strings: \<open>key\<close> starts at some position of \<open>s\<close>.\<close>

fun str_in :: "string \<Rightarrow> string \<Rightarrow> bool" where
  "str_in key [] = (key = [])"
| "str_in key (c # cs) = (prefix key (c # cs) \<or> str_in key cs)"

text \<open>\<open>s.rsplit(".", 1)[0]\<close>: what stands before the last dot, or \<open>s\<close> when it has none.\<close>

definition rsplit_dot_head :: "string \<Rightarrow> string" where
  "rsplit_dot_head s =
     (if CHR ''.'' \<in> set s
      then rev (tl (dropWhile (\<lambda>c. c \<noteq> CHR ''.'') (rev s)))
      else s)"

text \<open>The loop over \<open>COMPANY_LABELS.items()\<close>, which returns at the first key found.\<close>

fun first_label :: "(string \<times> string) list \<Rightarrow> string \<Rightarrow> string option" where
  "first_label [] lower_name = None"
| "first_label ((key, label) # rest) lower_name =
     (if str_in key lower_name then Some label else first_label rest lower_name)"

definition infer_company_name :: "string \<Rightarrow> string" where
  "infer_company_name filename =
     (let lower_name = lower filename
      in case first_label COMPANY_LABELS lower_name of
           Some label \<Rightarrow> label
         | None \<Rightarrow> rsplit_dot_head filename)"

section \<open>Value Normalizer\<close>

text \<open>
  \<open>pd.to_numeric\<close> reads the text of a cell with the routine \<open>precise_xstrtod\<close> of
  pandas, which works on binary64 numbers. It skips blanks, takes an optional sign,
  and reads the digits before and after an optional point: the first 17 digits are
  accumulated in a number (\<open>number = number * 10. + digit\<close>), a further digit before
  the point raises the decimal exponent by one, and further digits after the point
  are dropped. An exponent of up to 17 digits may follow \<open>e\<close> or \<open>E\<close>. The number is
  then multiplied or divided by a power of ten taken from a table of binary64
  numbers. Text without a digit, a decimal exponent above 308 and an infinite
  result are errors, and so is text that goes on after the number and its blanks.
\<close>

definition is_digit :: "char \<Rightarrow> bool" where
  "is_digit c = (CHR ''0'' \<le> c \<and> c \<le> CHR ''9'')"

definition digit_val :: "char \<Rightarrow> nat" where
  "digit_val c = of_char c - 48"

definition nat_of_digits :: "string \<Rightarrow> nat" where
  "nat_of_digits ds = foldl (\<lambda>acc c. 10 * acc + digit_val c) 0 ds"

definition isspace_ascii :: "char \<Rightarrow> bool" where
  "isspace_ascii c = (c = CHR '' '' \<or> (9 \<le> (of_char c :: nat) \<and> (of_char c :: nat) \<le> 13))"

text \<open>The sign in front of a number: whether it is negative, and the rest of the text.\<close>

fun take_sign :: "string \<Rightarrow> bool \<times> string" where
  "take_sign [] = (False, [])"
| "take_sign (c # cs) =
     (if c = CHR ''-'' then (True, cs) else if c = CHR ''+'' then (False, cs) else (False, c # cs))"

text \<open>The loop \<open>number = number * 10. + (*p - '0')\<close> over the digits that are used.\<close>

definition accumulate :: "string \<Rightarrow> float64" where
  "accumulate ds = foldl (\<lambda>number c. fl_add (fl_mul number (Fin 10)) (Fin (real (digit_val c)))) (Fin 0) ds"

text \<open>The table \<open>e\<close> of the powers of ten \<open>1e0\<close> to \<open>1e308\<close>, each a binary64 number.\<close>

definition e_table :: "nat \<Rightarrow> float64" where
  "e_table k = round64 (10 ^ k)"

text \<open>The scaling by the decimal exponent; \<open>None\<close> is the error \<open>ERANGE\<close>.\<close>

definition scale :: "float64 \<Rightarrow> int \<Rightarrow> float64 option" where
  "scale number exponent =
     (if 308 < exponent then None
      else
        (let r = (if 0 < exponent then fl_mul number (e_table (nat exponent))
                  else if exponent < - 308 then
                    (if exponent < - 616 then Fin 0
                     else fl_div (fl_div number (e_table (nat (- 308 - exponent)))) (e_table 308))
                  else fl_div number (e_table (nat (- exponent))))
         in if is_inf r then None else Some r))"

text \<open>
  \<open>to_double\<close>: the number and whether the text may be an integer (it has neither a
  point nor an exponent); \<open>None\<close> when \<open>precise_xstrtod\<close> reports an error or stops
  before the end of the text.
\<close>

definition to_double :: "string \<Rightarrow> (float64 \<times> bool) option" where
  "to_double str =
     (let (negative, p1) = take_sign (dropWhile isspace_ascii str);
          ip = takeWhile is_digit p1;
          p2 = dropWhile is_digit p1;
          has_dot = (p2 \<noteq> [] \<and> hd p2 = CHR ''.'');
          fp = (if has_dot then takeWhile is_digit (tl p2) else []);
          p3 = (if has_dot then dropWhile is_digit (tl p2) else p2);
          used = take 17 (ip @ fp);
          exponent0 = int (length ip) - int (length (take 17 ip)) - int (length used - length (take 17 ip));
          number = (if negative then fl_neg (accumulate used) else accumulate used);
          has_exp = (p3 \<noteq> [] \<and> (hd p3 = CHR ''e'' \<or> hd p3 = CHR ''E''));
          (eneg, p4) = take_sign (tl p3);
          ed = take 17 (takeWhile is_digit p4);
          n = int (nat_of_digits ed);
          exponent = (if has_exp then (if eneg then exponent0 - n else exponent0 + n) else exponent0);
          p5 = (if has_exp \<and> ed \<noteq> [] then drop (length ed) p4 else p3)
      in if ip = [] \<and> fp = [] then None
         else
           (case scale number exponent of
              None \<Rightarrow> None
            | Some v \<Rightarrow>
                if dropWhile isspace_ascii p5 = [] then Some (v, \<not> has_dot \<and> \<not> has_exp)
                else None))"

text \<open>
  \<open>floatify\<close>: text that \<open>to_double\<close> does not read may still be one of the words for
  an infinity, in any case of letters; \<open>None\<close> is the \<open>ValueError\<close> of the routine.
\<close>

definition floatify :: "string \<Rightarrow> (float64 \<times> bool) option" where
  "floatify s =
     (case to_double s of
        Some r \<Rightarrow> Some r
      | None \<Rightarrow>
          (let w = lower s
           in if w \<in> set [''inf'', ''+inf'', ''infinity'', ''+infinity''] then Some (PInf, False)
              else if w \<in> set [''-inf'', ''-infinity''] then Some (NInf, False)
              else None))"

text \<open>
  \<open>pd.to_numeric(s, errors="coerce")\<close>, cell by cell: a cell that does not parse is
  \<open>NaN\<close>. (A column of which every cell is the text of an integer is given the type
  \<open>int64\<close>, with the same numbers as long as they are below \<open>2\<^sup>5\<^sup>3\<close>.)
\<close>

definition to_numeric_coerce :: "string list \<Rightarrow> float64 list" where
  "to_numeric_coerce series = map (\<lambda>s. case floatify s of Some (v, _) \<Rightarrow> v | None \<Rightarrow> NaN) series"

text \<open>\<open>Series.str.replace(c, "")\<close> for a pattern of one character.\<close>

definition str_replace :: "char \<Rightarrow> string list \<Rightarrow> string list" where
  "str_replace c series = map (filter (\<lambda>x. x \<noteq> c)) series"

definition NBSP :: char where
  "NBSP = CHR 0xA0"

text \<open>The cells are the texts that \<open>astype(str)\<close> gives.\<close>

definition clean_numeric_column :: "string list \<Rightarrow> float64 list" where
  "clean_numeric_column series =
     (let s = str_replace CHR ''$'' (str_replace CHR '','' (str_replace CHR '' '' (str_replace NBSP series)))
      in to_numeric_coerce s)"

section \<open>Loader/Consolidator and Return Calculator\<close>

text \<open>
  A row of the frame \<open>temp\<close> has the columns \<open>company\<close>, \<open>date\<close> and \<open>price\<close>; a row
  of the consolidated frame has \<open>return_pct\<close> as well. A date is the number of its
  instant, so that the order of dates is the order of integers.
\<close>

record pre_row =
  company :: string
  date :: int
  price :: float64

record row = pre_row +
  return_pct :: float64

record dataframe =
  columns :: "string list"
  rows :: "row list"

text \<open>
  What \<open>pd.read_csv\<close> returns for a file: the header as read, and for every data
  line the cell of \<open>Date\<close> as \<open>pd.to_datetime(..., errors="coerce")\<close> reads it (\<open>None\<close>
  is \<open>NaT\<close>) and the text of the cell of \<open>Price\<close>. The two columns are looked at only
  when the header, blanks around its names removed, has each of the two names once.
\<close>

record csv_frame =
  csv_columns :: "string list"
  csv_Date :: "int option list"
  csv_Price :: "string list"

text \<open>
  An uploaded file: its name, what \<open>pd.read_csv(uploaded)\<close> gives and what
  \<open>pd.read_csv(uploaded, encoding="latin-1")\<close> gives after \<open>seek(0)\<close>; \<open>None\<close> when
  the call raises.
\<close>

record uploaded =
  name :: string
  read_csv :: "csv_frame option"
  read_csv_latin1 :: "csv_frame option"

datatype error = ReadError | ValueError | AttributeError

datatype warning = MissingColumns string

text \<open>\<open>str.strip\<close>: the characters of U+0000 .. U+00FF for which \<open>str.isspace\<close> holds.\<close>

definition py_isspace :: "char \<Rightarrow> bool" where
  "py_isspace c =
     (let n = (of_char c :: nat)
      in (9 \<le> n \<and> n \<le> 13) \<or> (28 \<le> n \<and> n \<le> 32) \<or> n = 133 \<or> n = 160)"

definition py_strip :: "string \<Rightarrow> string" where
  "py_strip s = rev (dropWhile py_isspace (rev (dropWhile py_isspace s)))"

text \<open>
  The frame \<open>temp\<close> of one file, after \<open>dropna(subset=["date", "price"])\<close>: a row
  stays when its date is not \<open>NaT\<close> and its price is not \<open>NaN\<close>.
\<close>

fun dropna_date_price :: "string \<Rightarrow> (int option \<times> float64) list \<Rightarrow> pre_row list" where
  "dropna_date_price c [] = []"
| "dropna_date_price c ((d, p) # rest) =
     (case d of
        None \<Rightarrow> dropna_date_price c rest
      | Some t \<Rightarrow>
          if isna p then dropna_date_price c rest
          else \<lparr>company = c, date = t, price = p\<rparr> # dropna_date_price c rest)"

definition required_cols :: "string set" where
  "required_cols = {''Date'', ''Price''}"

text \<open>
  The loop over the files. An exception of the second \<open>pd.read_csv\<close> is not caught:
  it ends the loop and the function. So does a header in which two names become
  \<open>Date\<close> or two names become \<open>Price\<close> when the blanks are removed: \<open>df["Date"]\<close> or
  \<open>df["Price"]\<close> is then a frame of two columns and not a column, on which
  \<open>pd.to_datetime\<close> raises \<open>ValueError\<close> and \<open>.str\<close> raises \<open>AttributeError\<close>.
\<close>

fun load_loop ::
  "uploaded list \<Rightarrow> pre_row list list \<Rightarrow> warning list
     \<Rightarrow> error + (pre_row list list \<times> warning list)" where
  "load_loop [] frames ws = Inr (frames, ws)"
| "load_loop (u # rest) frames ws =
     (case (case read_csv u of Some df \<Rightarrow> Some df | None \<Rightarrow> read_csv_latin1 u) of
        None \<Rightarrow> Inl ReadError
      | Some df \<Rightarrow>
          (let cols = map py_strip (csv_columns df)
           in if \<not> required_cols \<subseteq> set cols
              then load_loop rest frames (ws @ [MissingColumns (name u)])
              else if 1 < count_list cols ''Date'' then Inl ValueError
              else if 1 < count_list cols ''Price'' then Inl AttributeError
              else
                (let c = infer_company_name (name u);
                     d = csv_Date df;
                     p = clean_numeric_column (csv_Price df);
                     temp = dropna_date_price c (zip d p)
                 in load_loop rest (frames @ [temp]) ws)))"

text \<open>\<open>data.sort_values(["company", "date"])\<close>: a sort on several columns is stable.\<close>

definition sort_company_date :: "pre_row list \<Rightarrow> pre_row list" where
  "sort_company_date data = sort_key (\<lambda>r. (company r, date r)) data"

text \<open>
  \<open>groupby("company")["price"].shift(1)\<close>: for every row the price of the row before
  it in its group, \<open>NaN\<close> for the first row of a group. \<open>prev\<close> holds the last price
  seen of every company.
\<close>

fun group_shift :: "(string \<rightharpoonup> float64) \<Rightarrow> pre_row list \<Rightarrow> float64 list" where
  "group_shift prev [] = []"
| "group_shift prev (r # rs) =
     (case prev (company r) of None \<Rightarrow> NaN | Some p \<Rightarrow> p)
       # group_shift (prev(company r \<mapsto> price r)) rs"

text \<open>\<open>groupby("company")["price"].pct_change()\<close>: the price over the shifted price, minus one.\<close>

definition group_pct_change :: "pre_row list \<Rightarrow> float64 list" where
  "group_pct_change data =
     map (\<lambda>(r, s). fl_sub (fl_div (price r) s) (Fin 1)) (zip data (group_shift Map.empty data))"

definition with_return_pct :: "pre_row list \<Rightarrow> row list" where
  "with_return_pct data =
     map (\<lambda>(r, c). \<lparr>company = company r, date = date r, price = price r,
                    return_pct = fl_mul c (Fin 100)\<rparr>)
       (zip data (group_pct_change data))"

definition load_and_transform :: "uploaded list \<Rightarrow> error + (dataframe \<times> warning list)" where
  "load_and_transform files =
     (case load_loop files [] [] of
        Inl e \<Rightarrow> Inl e
      | Inr (frames, ws) \<Rightarrow>
          if frames = []
          then Inr (\<lparr>columns = [''company'', ''date'', ''price'', ''return_pct''], rows = []\<rparr>, ws)
          else
            (let data = concat frames;
                 data = sort_company_date data
             in Inr (\<lparr>columns = [''company'', ''date'', ''price'', ''return_pct''],
                      rows = with_return_pct data\<rparr>, ws)))"

section \<open>Event Extractor\<close>

text \<open>\<open>data.empty\<close>: the frame has no row (a frame of the model with a row has its columns).\<close>

definition df_empty :: "dataframe \<Rightarrow> bool" where
  "df_empty data = (rows data = [])"

text \<open>\<open>sort_values(["date", "company"], ascending=[False, True])\<close>, a stable sort.\<close>

definition sort_date_desc_company :: "row list \<Rightarrow> row list" where
  "sort_date_desc_company rs = sort_key (\<lambda>r. (- date r, company r)) rs"

definition get_dips_and_momentum :: "dataframe \<Rightarrow> float64 \<Rightarrow> dataframe \<times> dataframe" where
  "get_dips_and_momentum data threshold =
     (if df_empty data
      then (\<lparr>columns = [''date'', ''company'', ''price'', ''return_pct''], rows = []\<rparr>,
            \<lparr>columns = [''date'', ''company'', ''price'', ''return_pct''], rows = []\<rparr>)
      else
        (let dips = filter (\<lambda>r. fl_le (return_pct r) (fl_neg (fl_abs threshold))) (rows data);
             momentum = filter (\<lambda>r. fl_ge (return_pct r) (fl_abs threshold)) (rows data);
             dips = sort_date_desc_company dips;
             momentum = sort_date_desc_company momentum
         in (data\<lparr>rows := dips\<rparr>, data\<lparr>rows := momentum\<rparr>)))"

section \<open>Notions of the specification\<close>

text \<open>A key occurs in a label when the case of letters is ignored.\<close>

abbreviation occurs_ignoring_case :: "string \<Rightarrow> string \<Rightarrow> bool" where
  "occurs_ignoring_case key label \<equiv> (\<exists>s. sublist s label \<and> lower s = key)"

section \<open>Example inputs\<close>

text \<open>Two companies over three dates, with returns on both sides of a threshold of 10.\<close>

definition events_example :: dataframe where
  "events_example =
     \<lparr>columns = [''company'', ''date'', ''price'', ''return_pct''],
      rows =
        [\<lparr>company = ''A'', date = 1, price = Fin 100, return_pct = NaN\<rparr>,
         \<lparr>company = ''A'', date = 2, price = Fin 90.01, return_pct = Fin (- 9.99)\<rparr>,
         \<lparr>company = ''A'', date = 3, price = Fin 99.011, return_pct = Fin 10\<rparr>,
         \<lparr>company = ''B'', date = 1, price = Fin 50, return_pct = NaN\<rparr>,
         \<lparr>company = ''B'', date = 2, price = Fin 45, return_pct = Fin (- 10)\<rparr>,
         \<lparr>company = ''B'', date = 3, price = Fin 54, return_pct = Fin 20\<rparr>]\<rparr>"

text \<open>Two rows of one date that both fall by more than 10, the row of \<open>B\<close> first.\<close>

definition ties_example :: dataframe where
  "ties_example =
     \<lparr>columns = [''company'', ''date'', ''price'', ''return_pct''],
      rows =
        [\<lparr>company = ''B'', date = 7, price = Fin 40, return_pct = Fin (- 20)\<rparr>,
         \<lparr>company = ''A'', date = 7, price = Fin 85, return_pct = Fin (- 15)\<rparr>,
         \<lparr>company = ''A'', date = 8, price = Fin 68, return_pct = Fin (- 20)\<rparr>]\<rparr>"

text \<open>Sorted data with the three prices of the company \<open>E\<close> after a row of another company.\<close>

definition returns_example :: "pre_row list" where
  "returns_example =
     [\<lparr>company = ''D'', date = 2, price = Fin 7\<rparr>,
      \<lparr>company = ''E'', date = 1, price = Fin 100\<rparr>,
      \<lparr>company = ''E'', date = 2, price = Fin 110\<rparr>,
      \<lparr>company = ''E'', date = 3, price = Fin 99\<rparr>]"


text \<open>
  A file as read: a header with blanks around a name, a line without a date, and
  prices with a dollar sign. The files below differ in their names and in which of
  the two calls of \<open>pd.read_csv\<close> succeeds; an empty file makes both calls raise.
\<close>

definition price_frame :: csv_frame where
  "price_frame =
     \<lparr>csv_columns = [''Date'', '' Price ''],
      csv_Date = [Some 2, None, Some 1],
      csv_Price = [''200'', ''7'', ''$100'']\<rparr>"

definition good_file :: uploaded where
  "good_file = \<lparr>name = ''Boeing.csv'', read_csv = Some price_frame, read_csv_latin1 = Some price_frame\<rparr>"

definition unreadable_file :: uploaded where
  "unreadable_file = \<lparr>name = ''empty.csv'', read_csv = None, read_csv_latin1 = None\<rparr>"

definition latin1_file :: uploaded where
  "latin1_file = \<lparr>name = ''acme.csv'', read_csv = None, read_csv_latin1 = Some price_frame\<rparr>"

definition hidden_file :: uploaded where
  "hidden_file = \<lparr>name = ''.csv'', read_csv = Some price_frame, read_csv_latin1 = Some price_frame\<rparr>"

definition other_columns_file :: uploaded where
  "other_columns_file =
     \<lparr>name = ''notes.csv'',
      read_csv = Some \<lparr>csv_columns = [''Day'', ''Close''], csv_Date = [Some 1], csv_Price = [''5'']\<rparr>,
      read_csv_latin1 = None\<rparr>"

section \<open>Properties of the Entity Resolver\<close>

lemma str_in_sublist: "str_in key s \<longleftrightarrow> sublist key s"
  by (induction s) (auto simp: sublist_Cons_right)

lemma str_in_lower: "str_in key (lower label) \<longleftrightarrow> occurs_ignoring_case key label"
proof
  assume "str_in key (lower label)"
  then obtain ps ss where "map lower_char label = ps @ key @ ss"
    by (auto simp: str_in_sublist sublist_def lower_def)
  then obtain a b c where "label = a @ b @ c" "map lower_char b = key"
    by (auto simp: map_eq_append_conv append_eq_map_conv)
  then show "occurs_ignoring_case key label"
    by (auto simp: lower_def sublist_def)
next
  assume "occurs_ignoring_case key label"
  then obtain s ps ss where "label = ps @ s @ ss" "lower s = key"
    by (auto simp: sublist_def)
  then have "lower label = lower ps @ key @ lower ss"
    by (simp add: lower_def)
  then show "str_in key (lower label)"
    unfolding str_in_sublist sublist_def by blast
qed

lemma first_label_match:
  "tbl = pre @ (key, label) # rest \<Longrightarrow> str_in key s
     \<Longrightarrow> \<forall>kl \<in> set pre. \<not> str_in (fst kl) s \<Longrightarrow> first_label tbl s = Some label"
  by (induction pre arbitrary: tbl) auto

lemma first_label_none:
  "\<forall>kl \<in> set tbl. \<not> str_in (fst kl) s \<Longrightarrow> first_label tbl s = None"
  by (induction tbl) auto

lemma rsplit_dot_head_split:
  assumes "CHR ''.'' \<in> set s"
  shows "\<exists>ext. s = rsplit_dot_head s @ CHR ''.'' # ext \<and> CHR ''.'' \<notin> set ext"
proof -
  let ?p = "\<lambda>c. c \<noteq> CHR ''.''"
  from assms have "dropWhile ?p (rev s) \<noteq> []"
    by (auto simp: dropWhile_eq_Nil_conv)
  then obtain ys where ys: "dropWhile ?p (rev s) = CHR ''.'' # ys"
    using hd_dropWhile [of ?p "rev s"] by (cases "dropWhile ?p (rev s)") auto
  have "rev s = takeWhile ?p (rev s) @ CHR ''.'' # ys"
    using takeWhile_dropWhile_id [of ?p "rev s"] ys by simp
  then have "rev (rev s) = rev (takeWhile ?p (rev s) @ CHR ''.'' # ys)"
    by simp
  then have "s = rev ys @ CHR ''.'' # rev (takeWhile ?p (rev s))"
    by simp
  moreover have "rsplit_dot_head s = rev ys"
    using assms ys by (simp add: rsplit_dot_head_def)
  moreover have "CHR ''.'' \<notin> set (rev (takeWhile ?p (rev s)))"
    by (auto dest: set_takeWhileD)
  ultimately show ?thesis by metis
qed

lemma takeWhile_up_to:
  "c \<notin> set xs \<Longrightarrow> takeWhile (\<lambda>x. x \<noteq> c) (xs @ c # ys) = xs"
  by (induction xs) auto

lemma last_dot_unique:
  assumes "a @ CHR ''.'' # e = a' @ CHR ''.'' # e'"
    and "CHR ''.'' \<notin> set e" and "CHR ''.'' \<notin> set e'"
  shows "a = a'"
proof -
  let ?p = "\<lambda>c. c \<noteq> CHR ''.''"
  have "rev (a @ CHR ''.'' # e) = rev (a' @ CHR ''.'' # e')"
    using assms(1) by (rule arg_cong)
  then have eq: "rev e @ CHR ''.'' # rev a = rev e' @ CHR ''.'' # rev a'"
    by simp
  have "takeWhile ?p (rev e @ CHR ''.'' # rev a) = rev e"
    using assms(2) by (simp add: takeWhile_up_to)
  moreover have "takeWhile ?p (rev e' @ CHR ''.'' # rev a') = rev e'"
    using assms(3) by (simp add: takeWhile_up_to)
  ultimately have "rev e = rev e'"
    using eq by simp
  with eq show ?thesis by simp
qed

text \<open>
  C6. The resolver returns the label of the first entry of the table whose key occurs
  in the file name when the case of letters is ignored. When no key occurs, it
  returns the name up to its last dot, the dot and what follows it removed, and the
  whole name when it has no dot. The function has no error case.
\<close>

theorem infer_company_name_first_match:
  "(\<forall>pre key label rest.
      COMPANY_LABELS = pre @ (key, label) # rest
      \<and> occurs_ignoring_case key filename
      \<and> (\<forall>kl \<in> set pre. \<not> occurs_ignoring_case (fst kl) filename)
      \<longrightarrow> infer_company_name filename = label)
   \<and> ((\<forall>kl \<in> set COMPANY_LABELS. \<not> occurs_ignoring_case (fst kl) filename)
      \<longrightarrow> (if CHR ''.'' \<in> set filename
           then \<exists>ext. filename = infer_company_name filename @ CHR ''.'' # ext \<and> CHR ''.'' \<notin> set ext
           else infer_company_name filename = filename))"
proof (intro conjI allI impI)
  fix pre key label rest
  assume "COMPANY_LABELS = pre @ (key, label) # rest
      \<and> occurs_ignoring_case key filename
      \<and> (\<forall>kl \<in> set pre. \<not> occurs_ignoring_case (fst kl) filename)"
  then have "first_label COMPANY_LABELS (lower filename) = Some label"
    by (intro first_label_match [of _ pre key label rest]) (simp_all add: str_in_lower)
  then show "infer_company_name filename = label"
    by (simp add: infer_company_name_def)
next
  assume "\<forall>kl \<in> set COMPANY_LABELS. \<not> occurs_ignoring_case (fst kl) filename"
  then have "first_label COMPANY_LABELS (lower filename) = None"
    by (intro first_label_none) (simp add: str_in_lower)
  then have eq: "infer_company_name filename = rsplit_dot_head filename"
    by (simp add: infer_company_name_def)
  show "if CHR ''.'' \<in> set filename
           then \<exists>ext. filename = infer_company_name filename @ CHR ''.'' # ext \<and> CHR ''.'' \<notin> set ext
           else infer_company_name filename = filename"
    using rsplit_dot_head_split [of filename] by (simp add: eq rsplit_dot_head_def)
qed

lemma lower_boeing: "lower ''Boeing Stock Price History.csv'' = ''boeing stock price history.csv''"
  by code_simp

text \<open>The two file names of the specification.\<close>

theorem infer_company_name_first_match_witness:
  "infer_company_name ''Boeing Stock Price History.csv'' = ''Boeing''
   \<and> infer_company_name ''unknown_ticker.csv'' = ''unknown_ticker''"
proof -
  let ?f = "''Boeing Stock Price History.csv''"
  let ?before = "[(''general dynamics'', ''General Dynamics''),
      (''lockheed martin'', ''Lockheed Martin''),
      (''northrop grumman'', ''Northrop Grumman''),
      (''rtx corp'', ''RTX Corp'')]"
  have 1: "COMPANY_LABELS = ?before @ (''boeing'', ''Boeing'') # []"
    by (simp add: COMPANY_LABELS_def)
  have 2: "occurs_ignoring_case ''boeing'' ?f"
    unfolding str_in_lower [symmetric] lower_boeing by simp
  have 3: "\<forall>kl \<in> set ?before. \<not> occurs_ignoring_case (fst kl) ?f"
    unfolding str_in_lower [symmetric] lower_boeing by simp
  have a: "infer_company_name ?f = ''Boeing''"
    using infer_company_name_first_match [of ?f] 1 2 3 by blast
  let ?g = "''unknown_ticker.csv''"
  have lg: "lower ?g = ?g"
    by (simp add: lower_def lower_char_def)
  have 4: "\<forall>kl \<in> set COMPANY_LABELS. \<not> occurs_ignoring_case (fst kl) ?g"
    unfolding str_in_lower [symmetric] lg by (simp add: COMPANY_LABELS_def)
  have "\<exists>ext. ?g = infer_company_name ?g @ CHR ''.'' # ext \<and> CHR ''.'' \<notin> set ext"
    using infer_company_name_first_match [of ?g] 4 by simp
  then obtain ext where e: "?g = infer_company_name ?g @ CHR ''.'' # ext" "CHR ''.'' \<notin> set ext"
    by blast
  have "''unknown_ticker'' @ CHR ''.'' # ''csv'' = infer_company_name ?g @ CHR ''.'' # ext"
    using e(1) by simp
  then have "''unknown_ticker'' = infer_company_name ?g"
    by (rule last_dot_unique [OF _ _ e(2)]) simp
  then have b: "infer_company_name ?g = ''unknown_ticker''"
    by simp
  from a b show ?thesis by simp
qed

section \<open>Properties of the Value Normalizer\<close>

lemmas parse_eval = clean_numeric_column_def str_replace_def to_numeric_coerce_def floatify_def
  to_double_def NBSP_def isspace_ascii_def is_digit_def less_eq_char_def nat_of_digits_def
  digit_val_def scale_def e_table_def accumulate_def


section \<open>Properties of the Return Calculator\<close>

lemma length_group_shift: "length (group_shift prev data) = length data"
  by (induction data arbitrary: prev) auto

lemma group_shift_company:
  "map snd (filter (\<lambda>(r, s). company r = e) (zip data (group_shift prev data))) =
     take (length (filter (\<lambda>r. company r = e) data))
       ((case prev e of None \<Rightarrow> NaN | Some q \<Rightarrow> q) # map price (filter (\<lambda>r. company r = e) data))"
  by (induction data arbitrary: prev) simp_all

lemma fst_filter_zip:
  "length xs = length ys \<Longrightarrow> map fst (filter (\<lambda>(x, y). P x) (zip xs ys)) = filter P xs"
  by (induction xs ys rule: list_induct2) auto

lemma map_zip_map_zip:
  "length ss = length data \<Longrightarrow>
     map g (zip data (map f (zip data ss))) = map (\<lambda>p. g (fst p, f p)) (zip data ss)"
  by (induction ss data rule: list_induct2) auto

lemma with_return_pct_alt:
  "with_return_pct data =
     map (\<lambda>(r, s). \<lparr>company = company r, date = date r, price = price r,
                    return_pct = fl_mul (fl_sub (fl_div (price r) s) (Fin 1)) (Fin 100)\<rparr>)
       (zip data (group_shift Map.empty data))"
  by (simp add: with_return_pct_def group_pct_change_def length_group_shift map_zip_map_zip
      case_prod_unfold)

lemma filter_with_return_pct:
  "filter (\<lambda>r. company r = e) (with_return_pct data) =
     map (\<lambda>(r, s). \<lparr>company = company r, date = date r, price = price r,
                    return_pct = fl_mul (fl_sub (fl_div (price r) s) (Fin 1)) (Fin 100)\<rparr>)
       (zip (filter (\<lambda>r. company r = e) data)
          (take (length (filter (\<lambda>r. company r = e) data))
             (NaN # map price (filter (\<lambda>r. company r = e) data))))"
proof -
  let ?z = "filter (\<lambda>(r, s). company r = e) (zip data (group_shift Map.empty data))"
  have "map fst ?z = filter (\<lambda>r. company r = e) data"
    by (simp add: fst_filter_zip length_group_shift)
  moreover have "map snd ?z = take (length (filter (\<lambda>r. company r = e) data))
             (NaN # map price (filter (\<lambda>r. company r = e) data))"
    using group_shift_company [of e data Map.empty] by simp
  ultimately have "?z = zip (filter (\<lambda>r. company r = e) data)
          (take (length (filter (\<lambda>r. company r = e) data))
             (NaN # map price (filter (\<lambda>r. company r = e) data)))"
    by (metis zip_map_fst_snd)
  then show ?thesis
    by (simp add: with_return_pct_alt filter_map o_def case_prod_unfold)
qed

lemma fl_mul_commute: "fl_mul a b = fl_mul b a"
  by (simp add: fl_mul_def mult.commute disj_commute eq_commute [of "is_neg a" "is_neg b"])

lemma entity_rows_nth:
  assumes "i < length (filter (\<lambda>r. company r = e) data)"
  shows "filter (\<lambda>r. company r = e) (with_return_pct data) ! i =
           (let r = filter (\<lambda>r. company r = e) data ! i;
                s = (if i = 0 then NaN else price (filter (\<lambda>r. company r = e) data ! (i - 1)))
            in \<lparr>company = company r, date = date r, price = price r,
                 return_pct = fl_mul (fl_sub (fl_div (price r) s) (Fin 1)) (Fin 100)\<rparr>)"
  using assms by (cases i) (simp_all add: filter_with_return_pct Let_def)

lemma length_entity_rows:
  "length (filter (\<lambda>r. company r = e) (with_return_pct data)) =
     length (filter (\<lambda>r. company r = e) data)"
  by (simp add: filter_with_return_pct)

lemma with_return_pct_keeps:
  "map (\<lambda>r. (company r, date r, price r)) (with_return_pct data) =
     map (\<lambda>r. (company r, date r, price r)) data"
proof -
  let ?z = "zip data (group_shift Map.empty data)"
  have "map (\<lambda>r. (company r, date r, price r)) (with_return_pct data) =
          map (\<lambda>r. (company r, date r, price r)) (map fst ?z)"
    by (simp add: with_return_pct_alt case_prod_unfold o_def)
  also have "map fst ?z = data"
    by (simp add: length_group_shift)
  finally show ?thesis .
qed

lemma entity_rows_cells:
  "map (\<lambda>r. (date r, price r)) (filter (\<lambda>r. company r = e) (with_return_pct data)) =
     map (\<lambda>r. (date r, price r)) (filter (\<lambda>r. company r = e) data)"
proof -
  let ?ds = "filter (\<lambda>r. company r = e) data"
  let ?z = "zip ?ds (take (length ?ds) (NaN # map price ?ds))"
  have z: "map fst ?z = ?ds"
    by (simp add: map_fst_zip_take)
  have "map (\<lambda>r. (date r, price r)) (filter (\<lambda>r. company r = e) (with_return_pct data)) =
          map (\<lambda>p. (date (fst p), price (fst p))) ?z"
    by (simp add: filter_with_return_pct case_prod_unfold o_def)
  also have "\<dots> = map (\<lambda>r. (date r, price r)) (map fst ?z)"
    by (simp only: map_map o_def)
  finally show ?thesis
    by (simp only: z)
qed

lemma fl_div_NaN: "fl_div a NaN = NaN"
  by (simp add: fl_div_def)

lemma fl_sub_NaN: "fl_sub NaN b = NaN"
  by (simp add: fl_sub_def fl_add_def)

lemma fl_mul_NaN: "fl_mul a NaN = NaN"
  by (simp add: fl_mul_def)

text \<open>Unfolding the operations of binary64 on numerals.\<close>

lemma find_exp_numeral:
  "find_exp (numeral k) a e =
     (if 2 \<le> a then find_exp (pred_numeral k) (a / 2) (e + 1)
      else if a < 1 then find_exp (pred_numeral k) (a * 2) (e - 1)
      else e)"
  by (simp add: numeral_eq_Suc)

lemmas fl_eval = fl_div_def fl_mul_def fl_add_def fl_sub_def round64_def is_zero_def fl_zero_def
  fl_inf_def pow2_def rint_def Let_def find_exp_numeral

lemma entity_dates_sorted:
  assumes "sorted (map (\<lambda>r. (company r, date r)) data)"
  shows "sorted (map date (filter (\<lambda>r. company r = e) data))"
proof -
  from assms have "sorted_wrt (\<lambda>a b. (company a, date a) \<le> (company b, date b)) data"
    by (simp add: sorted_map)
  then have "sorted_wrt (\<lambda>a b. (company a, date a) \<le> (company b, date b))
               (filter (\<lambda>r. company r = e) data)"
    by (rule sorted_wrt_filter)
  then have "sorted_wrt (\<lambda>a b. date a \<le> date b) (filter (\<lambda>r. company r = e) data)"
    by (rule sorted_wrt_mono_rel[rotated]) (auto simp: less_eq_prod_def)
  then show ?thesis
    by (simp add: sorted_map)
qed

lemma sort_company_date_sorted:
  "sorted (map (\<lambda>r. (company r, date r)) (sort_company_date data))"
  by (simp add: sort_company_date_def)

lemma returns_example_rows:
  "filter (\<lambda>r. company r = ''E'') (with_return_pct returns_example) =
     [\<lparr>company = ''E'', date = 1, price = Fin 100, return_pct = NaN\<rparr>,
      \<lparr>company = ''E'', date = 2, price = Fin 110, return_pct = Fin (10 + 5 / 2 ^ 49)\<rparr>,
      \<lparr>company = ''E'', date = 3, price = Fin 99, return_pct = Fin (- (10 - 1 / 2 ^ 49))\<rparr>]"
  by (simp add: returns_example_def with_return_pct_alt fl_eval)

text \<open>
  C1, as stated, fails on its own example: for the prices 100, 110 and 99 the
  returns are not 10 and -10 but the binary64 numbers next to them, because
  \<open>110 / 100\<close> and \<open>99 / 110\<close> are rounded before 1 is subtracted.
\<close>

theorem return_example_is_rounded:
  "map return_pct (filter (\<lambda>r. company r = ''E'') (with_return_pct returns_example)) =
     [NaN, Fin (10 + 5 / 2 ^ 49), Fin (- (10 - 1 / 2 ^ 49))]
   \<and> Fin (10 + 5 / 2 ^ 49) \<noteq> Fin 10
   \<and> Fin (- (10 - 1 / 2 ^ 49)) \<noteq> Fin (- 10)"
  by (simp add: returns_example_rows)

text \<open>
  C1, amended. On data sorted by company and date the Return Calculator keeps
  company, date and price of every row, and within the rows of one company, which
  are in the order of their dates, the first return is missing and every later
  return is \<open>100 * (p\<^sub>i / p\<^sub>i\<^sub>-\<^sub>1 - 1)\<close> computed in binary64: the quotient is rounded, 1
  is subtracted and the difference rounded, and the product with 100 is rounded.
\<close>

theorem return_calculator_per_entity:
  assumes "sorted (map (\<lambda>r. (company r, date r)) data)"
  shows "map (\<lambda>r. (company r, date r, price r)) (with_return_pct data) =
           map (\<lambda>r. (company r, date r, price r)) data
         \<and> (let rs = filter (\<lambda>r. company r = e) (with_return_pct data)
            in sorted (map date rs)
               \<and> (\<forall>i < length rs.
                     return_pct (rs ! i) =
                       (if i = 0 then NaN
                        else fl_mul (Fin 100)
                               (fl_sub (fl_div (price (rs ! i)) (price (rs ! (i - 1)))) (Fin 1)))))"
proof -
  let ?rs = "filter (\<lambda>r. company r = e) (with_return_pct data)"
  let ?ds = "filter (\<lambda>r. company r = e) data"
  have len: "length ?rs = length ?ds"
    by (rule length_entity_rows)
  have cells: "map (\<lambda>r. (date r, price r)) ?rs = map (\<lambda>r. (date r, price r)) ?ds"
    by (rule entity_rows_cells)
  then have "map fst (map (\<lambda>r. (date r, price r)) ?rs) = map fst (map (\<lambda>r. (date r, price r)) ?ds)"
    by (rule arg_cong)
  then have "map date ?rs = map date ?ds"
    by (simp add: o_def)
  with entity_dates_sorted [OF assms, of e] have s: "sorted (map date ?rs)"
    by simp
  have price: "price (?rs ! j) = price (?ds ! j)" if "j < length ?ds" for j
    by (simp add: entity_rows_nth [OF that] Let_def)
  have nth: "return_pct (?rs ! i) =
               (if i = 0 then NaN
                else fl_mul (Fin 100) (fl_sub (fl_div (price (?rs ! i)) (price (?rs ! (i - 1)))) (Fin 1)))"
    if "i < length ?rs" for i
  proof -
    from that len have i: "i < length ?ds" "i - Suc 0 < length ?ds" by simp_all
    show ?thesis
      by (simp add: price [OF i(1)] price [OF i(2)] entity_rows_nth [OF i(1)] Let_def
          fl_mul_commute [of _ "Fin 100"] fl_div_NaN fl_sub_NaN fl_mul_NaN)
  qed
  show ?thesis
    unfolding Let_def
  proof (intro conjI allI impI)
    show "map (\<lambda>r. (company r, date r, price r)) (with_return_pct data) =
           map (\<lambda>r. (company r, date r, price r)) data"
      by (rule with_return_pct_keeps)
  next
    show "sorted (map date ?rs)"
      by (rule s)
  next
    fix i
    assume "i < length ?rs"
    then show "return_pct (?rs ! i) =
               (if i = 0 then NaN
                else fl_mul (Fin 100) (fl_sub (fl_div (price (?rs ! i)) (price (?rs ! (i - 1)))) (Fin 1)))"
      by (rule nth)
  qed
qed

text \<open>
  The prices 100, 110 and 99 of one company on three dates in a row: the returns
  are \<open>10.000000000000009\<close> and \<open>-9.999999999999998\<close>, written as fractions.
\<close>

theorem return_calculator_per_entity_witness:
  "sorted (map (\<lambda>r. (company r, date r)) returns_example)
   \<and> filter (\<lambda>r. company r = ''E'') (with_return_pct returns_example) =
       [\<lparr>company = ''E'', date = 1, price = Fin 100, return_pct = NaN\<rparr>,
        \<lparr>company = ''E'', date = 2, price = Fin 110, return_pct = Fin (10 + 5 / 2 ^ 49)\<rparr>,
        \<lparr>company = ''E'', date = 3, price = Fin 99, return_pct = Fin (- (10 - 1 / 2 ^ 49))\<rparr>]"
proof -
  have s: "sorted (map (\<lambda>r. (company r, date r)) returns_example)"
    by (simp add: returns_example_def less_eq_prod_def)
  show ?thesis
    using return_calculator_per_entity [OF s, of "''E''"] by (simp add: s returns_example_rows)
qed

section \<open>Properties of the Loader/Consolidator\<close>

lemma dropna_company: "r \<in> set (dropna_date_price c zs) \<Longrightarrow> company r = c"
  by (induction c zs rule: dropna_date_price.induct) (auto split: option.splits if_splits)

lemma dropna_price: "r \<in> set (dropna_date_price c zs) \<Longrightarrow> \<not> isna (price r)"
  by (induction c zs rule: dropna_date_price.induct) (auto split: option.splits if_splits)

lemma load_loop_companies:
  "load_loop files frames ws = Inr (frames', ws') \<Longrightarrow> r \<in> set (concat frames')
     \<Longrightarrow> r \<in> set (concat frames) \<or> (\<exists>u \<in> set files. company r = infer_company_name (name u))"
proof (induction files arbitrary: frames ws)
  case Nil
  then show ?case by simp
next
  case (Cons u rest)
  then show ?case
    by (fastforce simp: Let_def dest: dropna_company split: option.splits if_splits)
qed

lemma load_empty_shape:
  assumes "load_loop files [] [] = Inr (frames, ws)" and "concat frames = []"
  shows "load_and_transform files =
           Inr (\<lparr>columns = [''company'', ''date'', ''price'', ''return_pct''], rows = []\<rparr>, ws)"
  using assms
  by (simp add: load_and_transform_def sort_company_date_def with_return_pct_def
      group_pct_change_def del: concat_eq_Nil_conv)

lemma load_rows:
  assumes "load_and_transform files = Inr (data, ws)"
  shows "\<exists>frames. load_loop files [] [] = Inr (frames, ws)
           \<and> columns data = [''company'', ''date'', ''price'', ''return_pct'']
           \<and> rows data = with_return_pct (sort_company_date (concat frames))"
  using assms
  by (auto simp: load_and_transform_def Let_def sort_company_date_def with_return_pct_def
      group_pct_change_def split: sum.splits prod.splits if_splits)

lemma company_with_return_pct: "company ` set (with_return_pct data) = company ` set data"
proof -
  have "map fst (map (\<lambda>r. (company r, date r, price r)) (with_return_pct data)) =
          map fst (map (\<lambda>r. (company r, date r, price r)) data)"
    by (simp only: with_return_pct_keeps)
  then have "map company (with_return_pct data) = map company data"
    by (simp add: o_def)
  then have "set (map company (with_return_pct data)) = set (map company data)"
    by simp
  then show ?thesis by simp
qed

lemma load_companies:
  assumes "load_and_transform files = Inr (data, ws)" and "r \<in> set (rows data)"
  shows "\<exists>u \<in> set files. company r = infer_company_name (name u)"
proof -
  from load_rows [OF assms(1)] obtain frames where
    l: "load_loop files [] [] = Inr (frames, ws)"
    and r: "rows data = with_return_pct (sort_company_date (concat frames))"
    by blast
  from assms(2) r have "company r \<in> company ` set (with_return_pct (sort_company_date (concat frames)))"
    by simp
  then have "company r \<in> company ` set (concat frames)"
    by (simp add: company_with_return_pct sort_company_date_def del: set_concat)
  then obtain p where p: "company r = company p" "p \<in> set (concat frames)"
    by (rule imageE)
  from load_loop_companies [OF l p(2)] p(1) show ?thesis
    by simp
qed

lemma first_label_None_iff:
  "first_label tbl s = None \<longleftrightarrow> (\<forall>kl \<in> set tbl. \<not> str_in (fst kl) s)"
  by (induction tbl) (auto split: if_splits)

lemma first_label_in: "first_label tbl s = Some l \<Longrightarrow> l \<in> snd ` set tbl"
  by (induction tbl) (auto split: if_splits)

lemma company_label_nonempty: "first_label COMPANY_LABELS s = Some l \<Longrightarrow> l \<noteq> []"
  by (drule first_label_in) (auto simp: COMPANY_LABELS_def)

lemma rsplit_dot_head_empty_iff:
  "rsplit_dot_head n = [] \<longleftrightarrow> n = [] \<or> (\<exists>ext. n = CHR ''.'' # ext \<and> CHR ''.'' \<notin> set ext)"
proof
  assume e: "rsplit_dot_head n = []"
  show "n = [] \<or> (\<exists>ext. n = CHR ''.'' # ext \<and> CHR ''.'' \<notin> set ext)"
  proof (cases "CHR ''.'' \<in> set n")
    case True
    from rsplit_dot_head_split [OF True] e show ?thesis by simp
  next
    case False
    with e show ?thesis by (simp add: rsplit_dot_head_def)
  qed
next
  assume "n = [] \<or> (\<exists>ext. n = CHR ''.'' # ext \<and> CHR ''.'' \<notin> set ext)"
  then show "rsplit_dot_head n = []"
  proof
    assume "n = []"
    then show ?thesis by (simp add: rsplit_dot_head_def)
  next
    assume "\<exists>ext. n = CHR ''.'' # ext \<and> CHR ''.'' \<notin> set ext"
    then obtain ext where n: "n = [] @ CHR ''.'' # ext" "CHR ''.'' \<notin> set ext" by auto
    then have "CHR ''.'' \<in> set n" by simp
    from rsplit_dot_head_split [OF this] obtain e' where
      e': "n = rsplit_dot_head n @ CHR ''.'' # e'" "CHR ''.'' \<notin> set e'" by blast
    from e'(1) n(1) have "rsplit_dot_head n @ CHR ''.'' # e' = [] @ CHR ''.'' # ext" by simp
    then show ?thesis
      by (rule last_dot_unique [OF _ e'(2) n(2)])
  qed
qed

lemma infer_company_name_empty_iff:
  "infer_company_name n = [] \<longleftrightarrow>
     (\<forall>kl \<in> set COMPANY_LABELS. \<not> occurs_ignoring_case (fst kl) n)
     \<and> (n = [] \<or> (\<exists>ext. n = CHR ''.'' # ext \<and> CHR ''.'' \<notin> set ext))"
proof (cases "first_label COMPANY_LABELS (lower n)")
  case None
  then show ?thesis
    using first_label_None_iff [of COMPANY_LABELS "lower n"]
    by (simp add: infer_company_name_def rsplit_dot_head_empty_iff str_in_lower)
next
  case (Some l)
  then have "\<not> (\<forall>kl \<in> set COMPANY_LABELS. \<not> str_in (fst kl) (lower n))"
    using first_label_None_iff [of COMPANY_LABELS "lower n"] by simp
  with Some company_label_nonempty [OF Some] show ?thesis
    by (simp add: infer_company_name_def str_in_lower)
qed


lemma load_loop_total:
  assumes "\<forall>u \<in> set files. \<exists>df.
             (case read_csv u of Some df \<Rightarrow> Some df | None \<Rightarrow> read_csv_latin1 u) = Some df
             \<and> count_list (map py_strip (csv_columns df)) ''Date'' \<le> 1
             \<and> count_list (map py_strip (csv_columns df)) ''Price'' \<le> 1"
  shows "\<exists>res. load_loop files frames ws = Inr res"
  using assms
proof (induction files arbitrary: frames ws)
  case Nil
  then show ?case by simp
next
  case (Cons u rest)
  then obtain df where df:
    "(case read_csv u of Some df \<Rightarrow> Some df | None \<Rightarrow> read_csv_latin1 u) = Some df"
    "\<not> 1 < count_list (map py_strip (csv_columns df)) ''Date''"
    "\<not> 1 < count_list (map py_strip (csv_columns df)) ''Price''"
    by (auto simp: not_less)
  from Cons have ih: "\<exists>res. load_loop rest f w = Inr res" for f w
    by simp
  show ?case
    using ih df by (simp add: Let_def)
qed

lemma load_total_when_readable:
  assumes "\<forall>u \<in> set files. \<exists>df.
             (case read_csv u of Some df \<Rightarrow> Some df | None \<Rightarrow> read_csv_latin1 u) = Some df
             \<and> count_list (map py_strip (csv_columns df)) ''Date'' \<le> 1
             \<and> count_list (map py_strip (csv_columns df)) ''Price'' \<le> 1"
  shows "\<exists>res. load_and_transform files = Inr res"
proof -
  from load_loop_total [OF assms, of "[]" "[]"] obtain fr w where "load_loop files [] [] = Inr (fr, w)"
    by auto
  then show ?thesis
    by (simp add: load_and_transform_def Let_def)
qed

text \<open>The cells and the return of the example file.\<close>

lemma price_frame_cells:
  "clean_numeric_column [''200'', ''7'', ''$100''] = [Fin 200, Fin 7, Fin 100]"
  by (simp add: parse_eval fl_eval)

lemma return_200_100:
  "fl_mul (fl_sub (fl_div (Fin 200) (Fin 100)) (Fin 1)) (Fin 100) = Fin 100"
  by (simp add: fl_eval)

lemma return_first: "fl_mul (fl_sub (fl_div a NaN) (Fin 1)) (Fin 100) = NaN"
  by (simp add: fl_div_NaN fl_sub_NaN fl_mul_def)

lemmas eval_defs = load_and_transform_def good_file_def unreadable_file_def latin1_file_def hidden_file_def
  other_columns_file_def price_frame_def required_cols_def py_strip_def py_isspace_def
  price_frame_cells sort_company_date_def Let_def with_return_pct_alt return_200_100 return_first

lemma infer_names: "infer_company_name ''.csv'' = []" "infer_company_name ''acme.csv'' = ''acme''"
  "infer_company_name ''Boeing.csv'' = ''Boeing''"
  by code_simp+

text \<open>
  When the first call of \<open>pd.read_csv\<close> raises and the second succeeds, the frame of
  the second call is used; a file without the two columns is left out with a warning.
\<close>

lemma load_retries_with_latin1:
  "load_and_transform [other_columns_file, latin1_file] =
     Inr (\<lparr>columns = [''company'', ''date'', ''price'', ''return_pct''],
           rows = [\<lparr>company = ''acme'', date = 1, price = Fin 100, return_pct = NaN\<rparr>,
                   \<lparr>company = ''acme'', date = 2, price = Fin 200, return_pct = Fin 100\<rparr>]\<rparr>,
          [MissingColumns ''notes.csv''])"
  by (simp add: eval_defs infer_names)

lemma load_without_valid_file:
  "load_and_transform [other_columns_file] =
     Inr (\<lparr>columns = [''company'', ''date'', ''price'', ''return_pct''], rows = []\<rparr>,
          [MissingColumns ''notes.csv''])"
  by (simp add: eval_defs)

text \<open>A header in which two names become \<open>Price\<close> makes the function raise.\<close>

lemma load_raises_on_repeated_price:
  "load_and_transform
     [\<lparr>name = ''twice.csv'',
       read_csv = Some \<lparr>csv_columns = [''Date'', ''Price'', '' Price''],
                        csv_Date = [Some 1], csv_Price = [''5'']\<rparr>,
       read_csv_latin1 = None\<rparr>] = Inl AttributeError"
  by (simp add: load_and_transform_def required_cols_def py_strip_def py_isspace_def Let_def)

text \<open>
  C7. A batch without a valid row is to give an empty dataset with the four columns
  and no exception. A batch whose only file cannot be read by either call of
  \<open>pd.read_csv\<close> has no valid row, and the function raises the exception of the
  second call. (For a batch whose files can all be read and have neither name
  twice, \<open>load_empty_shape\<close> and \<open>load_total_when_readable\<close> give the empty dataset
  with its four columns.)
\<close>

theorem load_raises_without_valid_row:
  "load_and_transform [unreadable_file] = Inl ReadError"
  by (simp add: eval_defs)

text \<open>
  C8. A file that neither call of \<open>pd.read_csv\<close> can read is to be given up with a
  warning, the files after it still being loaded. The exception of the second call
  is not caught: the function raises, and the readable file after the unreadable
  one is not loaded, although it loads when given alone.
\<close>

theorem load_stops_at_unreadable_file:
  "load_and_transform [unreadable_file, good_file] = Inl ReadError
   \<and> (\<exists>res. load_and_transform [good_file] = Inr res)"
  by (simp add: eval_defs infer_names)

text \<open>
  C9, as stated, fails: the resolver gives the empty string for the file name \<open>.csv\<close>,
  and the rows of such a file are in the consolidated dataset with that entity.
\<close>

theorem load_empty_entity:
  "load_and_transform [hidden_file] =
     Inr (\<lparr>columns = [''company'', ''date'', ''price'', ''return_pct''],
           rows = [\<lparr>company = [], date = 1, price = Fin 100, return_pct = NaN\<rparr>,
                   \<lparr>company = [], date = 2, price = Fin 200, return_pct = Fin 100\<rparr>]\<rparr>, [])"
  by (simp add: eval_defs infer_names)

text \<open>
  C9, amended. The entity of every row of the consolidated dataset is the value of
  the resolver on the name of one of the files, and that value is empty exactly
  when no key of the table occurs in the name and the name is empty or is a dot
  followed by text without a dot.
\<close>

theorem load_entity_of_resolver:
  "(load_and_transform files = Inr (data, ws)
      \<longrightarrow> (\<forall>r \<in> set (rows data). \<exists>u \<in> set files. company r = infer_company_name (name u)))
   \<and> (infer_company_name n = [] \<longleftrightarrow>
        (\<forall>kl \<in> set COMPANY_LABELS. \<not> occurs_ignoring_case (fst kl) n)
        \<and> (n = [] \<or> (\<exists>ext. n = CHR ''.'' # ext \<and> CHR ''.'' \<notin> set ext)))"
  using load_companies [of files data ws] infer_company_name_empty_iff [of n] by blast

theorem load_entity_of_resolver_witness:
  "map company
     (rows (fst (projr (load_and_transform [other_columns_file, latin1_file])))) = [''acme'', ''acme'']
   \<and> infer_company_name ''acme.csv'' \<noteq> []"
  using load_entity_of_resolver [of "[other_columns_file, latin1_file]" _ _ "''acme.csv''"]
  by (simp add: load_retries_with_latin1 infer_names)

section \<open>Properties of the Event Extractor\<close>

lemma fl_abs_neg: "fl_abs (fl_neg t) = fl_abs t"
  by (cases t) simp_all

lemma fl_abs_idem: "fl_abs (fl_abs t) = fl_abs t"
  by (cases t) simp_all

lemma rows_dips:
  "rows (fst (get_dips_and_momentum data t)) =
     sort_date_desc_company (filter (\<lambda>r. fl_le (return_pct r) (fl_neg (fl_abs t))) (rows data))"
  by (simp add: get_dips_and_momentum_def df_empty_def sort_date_desc_company_def)

lemma rows_momentum:
  "rows (snd (get_dips_and_momentum data t)) =
     sort_date_desc_company (filter (\<lambda>r. fl_ge (return_pct r) (fl_abs t)) (rows data))"
  by (simp add: get_dips_and_momentum_def df_empty_def sort_date_desc_company_def)

lemma fl_le_Fin_iff:
  "c < 0 \<Longrightarrow> fl_le v (Fin c) \<longleftrightarrow> (\<exists>x. v = Fin x \<and> x \<le> c) \<or> v = NInf"
  by (cases v) (simp_all add: fl_le_def)

lemma fl_ge_Fin_iff:
  "0 < c \<Longrightarrow> fl_ge v (Fin c) \<longleftrightarrow> (\<exists>x. v = Fin x \<and> c \<le> x) \<or> v = PInf"
  by (cases v) (simp_all add: fl_ge_def fl_le_def)

text \<open>
  C2. For a threshold \<open>t > 0\<close>, the declines are exactly the rows of the data whose
  return is a number (or an infinity) at most \<open>- t\<close>, and the rises exactly those whose
  return is at least \<open>t\<close>, both bounds included, each row as often as the data has
  it; no row with a missing return is in either output.
\<close>

theorem extractor_selects_by_threshold:
  assumes "0 < t"
  shows "mset (rows (fst (get_dips_and_momentum data (Fin t)))) =
           filter_mset (\<lambda>r. (\<exists>x. return_pct r = Fin x \<and> x \<le> - t) \<or> return_pct r = NInf)
             (mset (rows data))
         \<and> mset (rows (snd (get_dips_and_momentum data (Fin t)))) =
           filter_mset (\<lambda>r. (\<exists>x. return_pct r = Fin x \<and> t \<le> x) \<or> return_pct r = PInf)
             (mset (rows data))
         \<and> (\<forall>r \<in> set (rows (fst (get_dips_and_momentum data (Fin t))))
                  \<union> set (rows (snd (get_dips_and_momentum data (Fin t)))).
               \<not> isna (return_pct r))"
  using assms
  by (auto simp: rows_dips rows_momentum sort_date_desc_company_def fl_le_Fin_iff fl_ge_Fin_iff
      abs_of_pos)

text \<open>
  With the threshold 10, the row of \<open>B\<close> with the return \<open>-10\<close> is the one decline of
  the example: the row with \<open>-9.99\<close> and the rows without a return are left out.
\<close>

theorem extractor_selects_by_threshold_witness:
  "(0::real) < 10
   \<and> rows (fst (get_dips_and_momentum events_example (Fin 10))) =
       [\<lparr>company = ''B'', date = 2, price = Fin 45, return_pct = Fin (- 10)\<rparr>]
   \<and> rows (snd (get_dips_and_momentum events_example (Fin 10))) =
       [\<lparr>company = ''A'', date = 3, price = Fin 99.011, return_pct = Fin 10\<rparr>,
        \<lparr>company = ''B'', date = 3, price = Fin 54, return_pct = Fin 20\<rparr>]
   \<and> list_all (\<lambda>r. \<not> isna (return_pct r))
         (rows (fst (get_dips_and_momentum events_example (Fin 10)))
            @ rows (snd (get_dips_and_momentum events_example (Fin 10))))"
proof -
  have pos: "(0::real) < 10" by simp
  show ?thesis
    using extractor_selects_by_threshold [OF pos, of events_example]
    by (simp add: rows_dips rows_momentum events_example_def sort_date_desc_company_def
        fl_ge_def fl_le_def)
qed

lemma sorted_date_desc_company:
  "sorted_wrt (\<lambda>a b. date b < date a \<or> (date a = date b \<and> company a \<le> company b))
     (sort_date_desc_company rs)"
proof -
  have "sorted (map (\<lambda>r. (- date r, company r)) (sort_date_desc_company rs))"
    unfolding sort_date_desc_company_def by (rule sorted_sort_key)
  then have "sorted_wrt (\<lambda>a b. (- date a, company a) \<le> (- date b, company b))
               (sort_date_desc_company rs)"
    by (simp add: sorted_map)
  then show ?thesis
    by (rule sorted_wrt_mono_rel[rotated]) (auto simp: less_eq_prod_def)
qed

text \<open>
  C3. In both outputs a row comes before another only if its date is later, or the
  dates are equal and its company is not after the other's in the order of strings.
\<close>

theorem extractor_outputs_sorted:
  "sorted_wrt (\<lambda>a b. date b < date a \<or> (date a = date b \<and> company a \<le> company b))
     (rows (fst (get_dips_and_momentum data t)))
   \<and> sorted_wrt (\<lambda>a b. date b < date a \<or> (date a = date b \<and> company a \<le> company b))
     (rows (snd (get_dips_and_momentum data t)))"
  by (simp add: rows_dips rows_momentum sorted_date_desc_company)

text \<open>Two declines of one date, given as \<open>B\<close> then \<open>A\<close>, come out as \<open>A\<close> then \<open>B\<close>.\<close>

theorem extractor_outputs_sorted_witness:
  "sorted_wrt (\<lambda>a b. date b < date a \<or> (date a = date b \<and> company a \<le> company b))
     (rows (fst (get_dips_and_momentum ties_example (Fin 10))))
   \<and> map (\<lambda>r. (date r, company r)) (rows (fst (get_dips_and_momentum ties_example (Fin 10)))) =
       [(8, ''A''), (7, ''A''), (7, ''B'')]"
  using extractor_outputs_sorted [of ties_example "Fin 10"]
  by (simp add: rows_dips ties_example_def sort_date_desc_company_def fl_le_def)

text \<open>
  C10. The outputs for a threshold, for its negation and for its absolute value are
  the same, whatever the threshold is.
\<close>

theorem extractor_threshold_sign:
  "get_dips_and_momentum data (fl_neg t) = get_dips_and_momentum data t
   \<and> get_dips_and_momentum data (fl_abs t) = get_dips_and_momentum data t"
  by (simp add: get_dips_and_momentum_def fl_abs_neg fl_abs_idem)

theorem extractor_threshold_sign_witness:
  "get_dips_and_momentum events_example (Fin (- 10)) = get_dips_and_momentum events_example (Fin 10)
   \<and> get_dips_and_momentum events_example (Fin \<bar>- 10\<bar>) = get_dips_and_momentum events_example (Fin (- 10))"
  using extractor_threshold_sign [of events_example "Fin 10"]
    extractor_threshold_sign [of events_example "Fin (- 10)"]
  by simp

end
